theory Spec2Isabelle
  imports Main
begin

section \<open>Go integer arithmetic\<close>

text \<open>
  The downloader computes with Go's \<open>int64\<close> and \<open>int\<close>. Both are modelled as HOL
  integers with the two's-complement wrap-around written out; \<open>int\<close> is taken as 64 bits
  wide (as on amd64 and arm64), so that the conversions \<open>int64(x)\<close> and \<open>int(x)\<close> are
  the identity. Go's \<open>/\<close> truncates towards zero, HOL's \<open>div\<close> rounds down.
\<close>

definition wrap64 :: "int \<Rightarrow> int" where
  "wrap64 x = (x + 2 ^ 63) mod 2 ^ 64 - 2 ^ 63"

definition wrap32 :: "int \<Rightarrow> int" where
  "wrap32 x = (x + 2 ^ 31) mod 2 ^ 32 - 2 ^ 31"

text \<open>\<open>a / b\<close> on \<open>int64\<close> for a divisor that is not zero.\<close>

definition quo64 :: "int \<Rightarrow> int \<Rightarrow> int" where
  "quo64 a b = wrap64 (sgn a * sgn b * (\<bar>a\<bar> div \<bar>b\<bar>))"

section \<open>Data of the downloader package\<close>

text \<open>A Go \<open>error\<close> value: one made by \<open>errors.New\<close>, or one handed back by a collaborator.\<close>

datatype error = ErrorsNew string | ExternalError string

datatype panic =
    ConfigIsNil \<comment> \<open>\<open>panic("config is nil")\<close>\<close>
  | ClientIsNil \<comment> \<open>\<open>panic("client is nil")\<close>\<close>
  | NilDereference
  | DivideByZero
  | MakeSliceCap \<comment> \<open>\<open>make\<close> with a negative capacity\<close>
  | IndexOutOfRange

datatype outcome = Panicked panic | Returned "error option"

record Range =
  Begin :: int
  End :: int

record DownloadStatus =
  totalSize :: int
  downloaded :: int

record InstanceInfo =
  DlStatus :: "DownloadStatus option"
  Ranges :: "Range list"

record Config =
  MaxParallel :: int
  CacheSize :: int
  IsTest :: bool
  InstanceStatePath :: string
  parallel :: int
  cacheSize :: int

record Request =
  Referer :: string
  URL :: string

record Response =
  StatusCode :: int
  Status :: string
  ContentLength :: int
  AcceptRangesHeader :: string
  Req :: "Request option"

text \<open>\<open>client.Req(method, url, nil, nil)\<close>: the response, or the transport error.\<close>

type_synonym HTTPClient = "string \<Rightarrow> string \<Rightarrow> error + Response"

type_synonym WriteCloserAt = string

text \<open>
  Modelled from the spec: the type \<open>Worker\<close> with \<open>NewWorker\<close>, \<open>SetClient\<close>,
  \<open>SetCacheSize\<close>, \<open>SetWriteMutex\<close>, \<open>SetReferer\<close> and \<open>SetRange\<close>, none of which is
  in the file. "Each worker receives: id, source URL, optional referer, the shared HTTP
  client, the shared write lock, the shared sink, its Range, effective_cache_size." A worker
  is the record of what \<open>Execute\<close> passes to these calls; \<open>wrange\<close> is the field that
  line 193 writes to. The write mutex, which all workers share, carries no data.
\<close>

record Worker =
  wid :: int
  wurl :: string
  wwriterAt :: "WriteCloserAt option"
  wclient :: HTTPClient
  wcacheSize :: int
  wreferer :: string
  wacceptRanges :: string
  wrange :: Range

record Monitor =
  status :: DownloadStatus
  workers :: "Worker list"

record Downloader =
  durl :: string
  writer :: "WriteCloserAt option"
  client :: "HTTPClient option"
  config :: "Config option"
  monitor :: "Monitor option"

text \<open>
  The collaborators of \<open>Execute\<close> whose code is not in the file, taken as parameters:
  the default client of \<open>requester.NewHTTPClient\<close>, \<open>NewDownloadStatus\<close>, the constant
  \<open>MinParallelSize\<close>, what \<open>initInstanceState\<close> returns and what
  \<open>instanceState.Get\<close> then yields, and whether \<open>Cancel\<close> takes effect while
  \<open>monitor.Execute\<close> blocks.
\<close>

record Env =
  NewHTTPClient :: HTTPClient
  NewDownloadStatus :: DownloadStatus
  MinParallelSize :: int
  initInstanceState :: "error option"
  instanceStateGet :: "InstanceInfo option"
  cancelled :: bool

text \<open>What \<open>Execute\<close> does to the world, in order.\<close>

datatype event =
    HeadRequest string
  | InitInstanceState
  | Append Worker
  | SetInstanceState
  | OnExecute
  | MonitorExecute "Worker list" bool \<comment> \<open>the workers run; whether the context was cancelled\<close>
  | RemoveInstanceState
  | OnFinish
  | OnCancel
  | MonitorCancelFunc

section \<open>The downloader\<close>

definition MustCheck :: "Downloader \<Rightarrow> panic option" where
  "MustCheck der =
     (if config der = None then Some ConfigIsNil
      else if client der = None then Some ClientIsNil
      else None)"

definition NewDownloader :: "Config \<Rightarrow> string \<Rightarrow> WriteCloserAt option \<Rightarrow> Config option \<Rightarrow> Downloader" where
  "NewDownloader newConfig u w cfg =
     \<lparr>durl = u, writer = w, client = None,
      config = (if cfg = None then Some newConfig else cfg), monitor = None\<rparr>"

definition SetClient :: "Downloader \<Rightarrow> HTTPClient option \<Rightarrow> panic + Downloader" where
  "SetClient der c =
     (let der' = der\<lparr>client := c\<rparr>
      in case MustCheck der' of Some p \<Rightarrow> Inl p | None \<Rightarrow> Inr der')"

definition lazyInit :: "Env \<Rightarrow> Downloader \<Rightarrow> Downloader" where
  "lazyInit env der =
     (let der1 = (if client der = None then der\<lparr>client := Some (NewHTTPClient env)\<rparr> else der)
      in if monitor der1 = None
         then der1\<lparr>monitor := Some \<lparr>status = NewDownloadStatus env, workers = []\<rparr>\<rparr>
         else der1)"

subsection \<open>The probe\<close>

text \<open>The switch on \<open>resp.StatusCode / 100\<close>: the error it returns, if any.\<close>

definition checkStatus :: "Response \<Rightarrow> error option" where
  "checkStatus resp =
     (let c = quo64 (StatusCode resp) 100
      in if c = 2 then None
         else if c = 4 \<or> c = 5 then Some (ErrorsNew (Status resp))
         else None)"

definition acceptRangesOf :: "Response \<Rightarrow> string" where
  "acceptRangesOf resp =
     (let acceptRanges = AcceptRangesHeader resp
      in if ContentLength resp \<le> 0 then [] else ''bytes'')"

subsection \<open>Parallelism and cache size\<close>

text \<open>
  Lines 134 to 144: \<open>der.config.parallel\<close> from the range support, the persisted
  ranges, \<open>MaxParallel\<close> and the total size.
\<close>

definition chooseParallel :: "int \<Rightarrow> string \<Rightarrow> Range list \<Rightarrow> int \<Rightarrow> int \<Rightarrow> panic + int" where
  "chooseParallel minParallelSize acceptRanges ranges maxParallel tsize =
     (let isRange = (ranges \<noteq> [])
      in if acceptRanges = [] then Inr 1
         else if isRange then Inr (int (length ranges))
         else if minParallelSize = 0 then Inl DivideByZero
         else if maxParallel > quo64 tsize minParallelSize
              then Inr (wrap64 (quo64 tsize minParallelSize + 1))
              else Inr maxParallel)"

text \<open>Lines 146 to 152: the block size and the cache size, lowered to the block size.\<close>

definition blockSizeOf :: "int \<Rightarrow> int \<Rightarrow> panic + int" where
  "blockSizeOf tsize par = (if par = 0 then Inl DivideByZero else Inr (quo64 tsize par))"

definition capCacheSize :: "int \<Rightarrow> int \<Rightarrow> int" where
  "capCacheSize configured blockSize = (if configured > blockSize then blockSize else configured)"

subsection \<open>The workers\<close>

record LoopVars =
  l_durl :: string
  l_referer :: string
  l_writerAt :: "WriteCloserAt option"
  l_client :: HTTPClient
  l_cacheSize :: int
  l_acceptRanges :: string
  l_ranges :: "Range list"
  l_blockSize :: int
  l_totalSize :: int
  l_parallel :: int

definition newWorker :: "LoopVars \<Rightarrow> int \<Rightarrow> Range \<Rightarrow> Worker" where
  "newWorker v i r =
     \<lparr>wid = wrap32 i, wurl = l_durl v, wwriterAt = l_writerAt v, wclient = l_client v,
      wcacheSize = l_cacheSize v, wreferer = l_referer v,
      wacceptRanges = l_acceptRanges v, wrange = r\<rparr>"

text \<open>
  One pass of the loop of lines 178 to 197, for the index \<open>i\<close>, from the value of
  \<open>begin\<close> and the workers appended so far.
\<close>

definition loopBody :: "LoopVars \<Rightarrow> int \<Rightarrow> int \<times> Worker list \<Rightarrow> panic + int \<times> Worker list" where
  "loopBody v i s =
     (case s of (begin, ws) \<Rightarrow>
        if l_ranges v \<noteq> [] then
          (if 0 \<le> i \<and> nat i < length (l_ranges v)
           then Inr (begin, ws @ [newWorker v i (l_ranges v ! nat i)])
           else Inl IndexOutOfRange)
        else
          (let endv = wrap64 (wrap64 (i + 1) * l_blockSize v);
               r = \<lparr>Begin = begin, End = endv\<rparr>;
               begin' = wrap64 (endv + 1);
               r' = (if i = wrap64 (l_parallel v - 1)
                     then r\<lparr>End := wrap64 (l_totalSize v - 1)\<rparr> else r)
           in Inr (begin', ws @ [newWorker v i r'])))"

text \<open>The state of the loop after its first \<open>k\<close> passes.\<close>

fun workerLoop :: "LoopVars \<Rightarrow> nat \<Rightarrow> panic + int \<times> Worker list" where
  "workerLoop v 0 = Inr (0, [])"
| "workerLoop v (Suc k) =
     (case workerLoop v k of
        Inl p \<Rightarrow> Inl p
      | Inr s \<Rightarrow> loopBody v (int k) s)"

text \<open>
  \<open>make([]*Worker, 0, parallel)\<close>, which panics on a negative capacity, and the loop
  \<open>for i := 0; i < parallel; i++\<close>. The index panic of \<open>ranges[i]\<close> is written out in
  \<open>loopBody\<close>; \<open>Execute\<close> never reaches it (lemma \<open>Execute_no_index_panic\<close>).
\<close>

definition buildWorkers :: "LoopVars \<Rightarrow> panic + Worker list" where
  "buildWorkers v =
     (if l_parallel v < 0 then Inl MakeSliceCap
      else case workerLoop v (nat (l_parallel v)) of
             Inl p \<Rightarrow> Inl p
           | Inr s \<Rightarrow> Inr (snd s))"

subsection \<open>Execute\<close>

record ExecuteResult =
  ret :: outcome
  final :: Downloader
  events :: "event list"

text \<open>
  Lines 119 to 131: the status and the ranges of the loaded checkpoint, and the status the
  monitor then holds (the one of the checkpoint, or its own with the probed length).
\<close>

definition loadedStatus :: "Env \<Rightarrow> DownloadStatus option" where
  "loadedStatus env = (case instanceStateGet env of None \<Rightarrow> None | Some ii \<Rightarrow> DlStatus ii)"

definition loadedRanges :: "Env \<Rightarrow> Range list" where
  "loadedRanges env = (case instanceStateGet env of None \<Rightarrow> [] | Some ii \<Rightarrow> Ranges ii)"

definition monitorStatus :: "Env \<Rightarrow> Monitor \<Rightarrow> Response \<Rightarrow> DownloadStatus" where
  "monitorStatus env mon resp =
     (case loadedStatus env of
        None \<Rightarrow> (status mon)\<lparr>totalSize := ContentLength resp\<rparr>
      | Some st \<Rightarrow> st)"

definition loopVars :: "Env \<Rightarrow> Downloader \<Rightarrow> HTTPClient \<Rightarrow> Config \<Rightarrow> Monitor \<Rightarrow> Response \<Rightarrow> int \<Rightarrow> int \<Rightarrow> LoopVars" where
  "loopVars env der cl cfg mon resp par blockSize =
     \<lparr>l_durl = (case Req resp of None \<Rightarrow> [] | Some rq \<Rightarrow> URL rq),
      l_referer = (case Req resp of None \<Rightarrow> [] | Some rq \<Rightarrow> Referer rq),
      l_writerAt = writer der, l_client = cl,
      l_cacheSize = capCacheSize (CacheSize cfg) blockSize,
      l_acceptRanges = acceptRangesOf resp, l_ranges = loadedRanges env,
      l_blockSize = blockSize, l_totalSize = totalSize (monitorStatus env mon resp),
      l_parallel = par\<rparr>"

text \<open>Lines 94 to 208, once the probe has answered with a status that is no error.\<close>

definition afterProbe :: "Env \<Rightarrow> Downloader \<Rightarrow> HTTPClient \<Rightarrow> Config \<Rightarrow> Monitor \<Rightarrow> Response \<Rightarrow> ExecuteResult" where
  "afterProbe env der cl cfg mon resp =
     (let ev1 = [HeadRequest (durl der), InitInstanceState]
      in case initInstanceState env of
           Some err \<Rightarrow>
             \<lparr>ret = Returned (Some err),
              final = der\<lparr>monitor := Some (mon\<lparr>status := (status mon)\<lparr>totalSize := ContentLength resp\<rparr>\<rparr>)\<rparr>,
              events = ev1\<rparr>
         | None \<Rightarrow>
            (let mon2 = mon\<lparr>status := monitorStatus env mon resp\<rparr>;
                 tsize = totalSize (status mon2)
             in case chooseParallel (MinParallelSize env) (acceptRangesOf resp) (loadedRanges env)
                       (MaxParallel cfg) tsize of
                  Inl p \<Rightarrow> \<lparr>ret = Panicked p,
                            final = der\<lparr>monitor := Some mon2,
                                        config := Some (cfg\<lparr>parallel := MaxParallel cfg\<rparr>)\<rparr>,
                            events = ev1\<rparr>
                | Inr par \<Rightarrow>
                   (case blockSizeOf tsize par of
                      Inl p \<Rightarrow> \<lparr>ret = Panicked p,
                                final = der\<lparr>monitor := Some mon2,
                                            config := Some (cfg\<lparr>parallel := par,
                                                                cacheSize := CacheSize cfg\<rparr>)\<rparr>,
                                events = ev1\<rparr>
                    | Inr blockSize \<Rightarrow>
                       (let cfg2 = cfg\<lparr>parallel := par,
                                       cacheSize := capCacheSize (CacheSize cfg) blockSize\<rparr>
                        in case buildWorkers (loopVars env der cl cfg mon resp par blockSize) of
                             Inl p \<Rightarrow> \<lparr>ret = Panicked p,
                                       final = der\<lparr>monitor := Some mon2, config := Some cfg2\<rparr>,
                                       events = ev1\<rparr>
                           | Inr ws \<Rightarrow>
                              \<lparr>ret = Returned None,
                               final = der\<lparr>monitor := Some (mon2\<lparr>workers := ws\<rparr>),
                                           config := Some cfg2\<rparr>,
                               events = ev1 @ map Append ws
                                 @ [SetInstanceState, OnExecute,
                                    MonitorExecute ws (cancelled env),
                                    RemoveInstanceState, OnFinish]\<rparr>))))"

definition Execute :: "Env \<Rightarrow> Downloader \<Rightarrow> ExecuteResult" where
  "Execute env der0 =
     (let der = lazyInit env der0
      in case MustCheck der of
           Some p \<Rightarrow> \<lparr>ret = Panicked p, final = der, events = []\<rparr>
         | None \<Rightarrow>
            (case client der of
               None \<Rightarrow> \<lparr>ret = Panicked NilDereference, final = der, events = []\<rparr>
             | Some cl \<Rightarrow>
                (case cl ''HEAD'' (durl der) of
                   Inl err \<Rightarrow> \<lparr>ret = Returned (Some err), final = der,
                               events = [HeadRequest (durl der)]\<rparr>
                 | Inr resp \<Rightarrow>
                    (case checkStatus resp of
                       Some err \<Rightarrow> \<lparr>ret = Returned (Some err), final = der,
                                   events = [HeadRequest (durl der)]\<rparr>
                     | None \<Rightarrow>
                        (case config der of
                           None \<Rightarrow> \<lparr>ret = Panicked NilDereference, final = der,
                                     events = [HeadRequest (durl der)]\<rparr>
                         | Some cfg \<Rightarrow>
                            (case monitor der of
                               None \<Rightarrow> \<lparr>ret = Panicked NilDereference, final = der,
                                         events = [HeadRequest (durl der)]\<rparr>
                             | Some mon \<Rightarrow> afterProbe env der cl cfg mon resp))))))"

text \<open>\<open>Cancel\<close>: nothing without a monitor, else the two triggers.\<close>

definition Cancel :: "Downloader \<Rightarrow> event list" where
  "Cancel der = (if monitor der = None then [] else [OnCancel, MonitorCancelFunc])"

text \<open>What a run leaves behind: the workers of the monitor.\<close>

definition workersOf :: "Downloader \<Rightarrow> Worker list" where
  "workersOf der = (case monitor der of None \<Rightarrow> [] | Some m \<Rightarrow> workers m)"

section \<open>The download command\<close>

definition DownloadSuffix :: string where
  "DownloadSuffix = ''.BaiduPCS-Go-downloading''"

text \<open>
  The file system as far as \<open>fileExist\<close> sees it: the set of paths on which
  \<open>os.Stat\<close> returns no error.
\<close>

definition fileExist :: "string set \<Rightarrow> string \<Rightarrow> bool" where
  "fileExist fs path =
     (if path \<in> fs then (if path @ DownloadSuffix \<notin> fs then True else False) else False)"

text \<open>Lines 49 and 50 of \<open>getDownloadFunc\<close>: the checkpoint path written into the config.\<close>

definition getDownloadFunc_cfg :: "string \<Rightarrow> Config \<Rightarrow> Config" where
  "getDownloadFunc_cfg savePath cfg =
     (if \<not> IsTest cfg then cfg\<lparr>InstanceStatePath := savePath @ DownloadSuffix\<rparr> else cfg)"

text \<open>Line 230 of \<open>RunDownload\<close>: whether the task is skipped as already downloaded.\<close>

definition RunDownload_skip :: "bool \<Rightarrow> string set \<Rightarrow> string \<Rightarrow> bool" where
  "RunDownload_skip isTest fs savePath \<longleftrightarrow> \<not> isTest \<and> fileExist fs savePath"

section \<open>Sample inputs\<close>

text \<open>A client that answers every request with the given status, length and header.\<close>

definition sampleResponse :: "int \<Rightarrow> string \<Rightarrow> int \<Rightarrow> string \<Rightarrow> string \<Rightarrow> Response" where
  "sampleResponse code st len hdr u =
     \<lparr>StatusCode = code, Status = st, ContentLength = len, AcceptRangesHeader = hdr,
      Req = Some \<lparr>Referer = [], URL = u\<rparr>\<rparr>"

definition sampleClient :: "int \<Rightarrow> string \<Rightarrow> int \<Rightarrow> string \<Rightarrow> HTTPClient" where
  "sampleClient code st len hdr m u = Inr (sampleResponse code st len hdr u)"

definition failingClient :: HTTPClient where
  "failingClient m u = Inl (ExternalError ''dial tcp: i/o timeout'')"

definition sampleEnv :: "InstanceInfo option \<Rightarrow> bool \<Rightarrow> Env" where
  "sampleEnv ii c =
     \<lparr>NewHTTPClient = sampleClient 200 ''200 OK'' 100 ''bytes'',
      NewDownloadStatus = \<lparr>totalSize = 0, downloaded = 0\<rparr>,
      MinParallelSize = 256 * 1024,
      initInstanceState = None, instanceStateGet = ii, cancelled = c\<rparr>"

definition sampleConfig :: "int \<Rightarrow> int \<Rightarrow> Config" where
  "sampleConfig m cs =
     \<lparr>MaxParallel = m, CacheSize = cs, IsTest = False,
      InstanceStatePath = ''file.BaiduPCS-Go-downloading'', parallel = 0, cacheSize = 0\<rparr>"

definition sampleDownloader :: "HTTPClient option \<Rightarrow> int \<Rightarrow> int \<Rightarrow> Downloader" where
  "sampleDownloader c m cs =
     \<lparr>durl = ''http://host/file'', writer = Some ''file'', client = c,
      config = Some (sampleConfig m cs), monitor = None\<rparr>"

text \<open>A checkpoint with two ranges left to fetch.\<close>

definition sampleInstanceInfo :: InstanceInfo where
  "sampleInstanceInfo =
     \<lparr>DlStatus = Some \<lparr>totalSize = 200, downloaded = 70\<rparr>,
      Ranges = [\<lparr>Begin = 50, End = 99\<rparr>, \<lparr>Begin = 120, End = 199\<rparr>]\<rparr>"

section \<open>The partition as the specification words it\<close>

text \<open>
  Worker \<open>i\<close> of \<open>N\<close> gets \<open>begin = i * block + (i > 0)\<close> and \<open>end = (i + 1) * block\<close>,
  with \<open>block = T div N\<close>; worker \<open>N - 1\<close> has \<open>end = T - 1\<close>.
\<close>

definition spec_range :: "int \<Rightarrow> int \<Rightarrow> nat \<Rightarrow> Range" where
  "spec_range T N i =
     \<lparr>Begin = (if i = 0 then 0 else int i * (T div N) + 1),
      End = (if int i = N - 1 then T - 1 else (int i + 1) * (T div N))\<rparr>"

section \<open>Arithmetic within the range of \<open>int64\<close>\<close>

lemma wrap64_id: "- (2 ^ 63) \<le> x \<Longrightarrow> x < 2 ^ 63 \<Longrightarrow> wrap64 x = x"
  by (simp add: wrap64_def)

lemma quo64_nonneg:
  assumes "0 \<le> a" "a < 2 ^ 63" "0 < b"
  shows "quo64 a b = a div b"
proof -
  have s: "sgn a * sgn b * (\<bar>a\<bar> div \<bar>b\<bar>) = a div b"
    using assms by (cases "a = 0") (simp_all add: sgn_if)
  have "0 \<le> a div b" using assms by (simp add: pos_imp_zdiv_nonneg_iff)
  moreover have "a div b \<le> a" using assms by (cases "a = 0") (simp_all add: int_div_le_self)
  ultimately have "wrap64 (a div b) = a div b"
    using assms by (intro wrap64_id) auto
  then show ?thesis unfolding quo64_def s .
qed

lemma chooseParallel_fresh:
  assumes "0 < T" "T < 2 ^ 63" "0 < S" "M < 2 ^ 63"
  shows "chooseParallel S ''bytes'' [] M T = Inr (min M (T div S + 1))"
proof -
  have q: "quo64 T S = T div S" using assms by (simp add: quo64_nonneg)
  have nn: "0 \<le> T div S" using assms by (simp add: pos_imp_zdiv_nonneg_iff)
  show ?thesis
  proof (cases "M > T div S")
    case True
    then have "wrap64 (T div S + 1) = T div S + 1"
      using assms nn by (intro wrap64_id) auto
    then show ?thesis using True assms q by (simp add: chooseParallel_def)
  next
    case False
    then show ?thesis using assms q by (simp add: chooseParallel_def)
  qed
qed

lemma div_mult_le_int:
  assumes "0 < N" "0 \<le> (T::int)"
  shows "N * (T div N) \<le> T"
proof -
  have "N * (T div N) + T mod N = T" by simp
  moreover have "0 \<le> T mod N" using assms by simp
  ultimately show ?thesis by linarith
qed

lemma lazyInit_fields [simp]:
  "durl (lazyInit env der) = durl der"
  "writer (lazyInit env der) = writer der"
  "config (lazyInit env der) = config der"
  by (simp_all add: lazyInit_def Let_def)

lemma lazyInit_client:
  "client (lazyInit env der) = Some (case client der of None \<Rightarrow> NewHTTPClient env | Some c \<Rightarrow> c)"
  by (cases "client der") (simp_all add: lazyInit_def Let_def)

lemma lazyInit_monitor:
  "monitor (lazyInit env der) =
     Some (case monitor der of None \<Rightarrow> \<lparr>status = NewDownloadStatus env, workers = []\<rparr> | Some m \<Rightarrow> m)"
  by (cases "monitor der") (simp_all add: lazyInit_def Let_def)

lemma MustCheck_lazyInit: "config der = Some cfg \<Longrightarrow> MustCheck (lazyInit env der) = None"
  by (simp add: MustCheck_def lazyInit_client)

lemma Execute_afterProbe:
  assumes "config der = Some cfg" "client (lazyInit env der) = Some cl"
    and "monitor (lazyInit env der) = Some mon"
    and "cl ''HEAD'' (durl der) = Inr resp" "checkStatus resp = None"
  shows "Execute env der = afterProbe env (lazyInit env der) cl cfg mon resp"
  using assms by (simp add: Execute_def MustCheck_lazyInit)

lemma afterProbe_parallel:
  assumes "initInstanceState env = None"
    and "chooseParallel (MinParallelSize env) (acceptRangesOf resp) (loadedRanges env)
           (MaxParallel cfg) (totalSize (monitorStatus env mon resp)) = Inr par"
  shows "map_option parallel (config (final (afterProbe env der cl cfg mon resp))) = Some par"
  using assms by (simp add: afterProbe_def Let_def split: sum.split)

section \<open>The chosen parallelism\<close>

text \<open>
  C3. On a fresh run (no checkpoint loaded) against a server that reports a length
  \<open>T > 0\<close>, with \<open>MaxParallel = M \<ge> 1\<close> and \<open>MinParallelSize = S > 0\<close>,
  \<open>Execute\<close> sets \<open>config.parallel\<close> to \<open>min M (T div S + 1)\<close>. The witness is the
  case \<open>T = 100\<close>, \<open>M = 8\<close>, \<open>S = 256 * 1024\<close>, where the result is 1.
\<close>

theorem parallel_fresh:
  assumes "config der = Some cfg" "client (lazyInit env der) = Some cl"
    and "cl ''HEAD'' (durl der) = Inr resp" "checkStatus resp = None"
    and "initInstanceState env = None" "loadedStatus env = None" "loadedRanges env = []"
    and "ContentLength resp = T" "0 < T" "T < 2 ^ 63"
    and "MaxParallel cfg = M" "1 \<le> M" "M < 2 ^ 63"
    and "MinParallelSize env = S" "0 < S"
  shows "map_option parallel (config (final (Execute env der))) = Some (min M (T div S + 1))"
proof -
  obtain mon where mon: "monitor (lazyInit env der) = Some mon"
    by (simp add: lazyInit_monitor)
  have ar: "acceptRangesOf resp = ''bytes''"
    using assms by (simp add: acceptRangesOf_def)
  have "Execute env der = afterProbe env (lazyInit env der) cl cfg mon resp"
    using assms mon by (intro Execute_afterProbe)
  moreover have "map_option parallel (config (final (afterProbe env (lazyInit env der) cl cfg mon resp)))
      = Some (min M (T div S + 1))"
    using assms ar by (intro afterProbe_parallel) (simp_all add: chooseParallel_fresh loadedRanges_def loadedStatus_def monitorStatus_def)
  ultimately show ?thesis by simp
qed

theorem parallel_fresh_witness:
  "(0::int) < 100 \<and> (1::int) \<le> 8 \<and> (0::int) < 256 * 1024 \<and>
   map_option parallel (config (final (Execute (sampleEnv None False)
     (sampleDownloader (Some (sampleClient 200 ''200 OK'' 100 ''none'')) 8 1024)))) = Some 1"
proof -
  let ?e = "sampleEnv None False"
  let ?cl = "sampleClient 200 ''200 OK'' 100 ''none''"
  let ?d = "sampleDownloader (Some ?cl) 8 1024"
  let ?r = "sampleResponse 200 ''200 OK'' 100 ''none'' ''http://host/file''"
  have 1: "config ?d = Some (sampleConfig 8 1024)"
    by (simp add: sampleDownloader_def)
  have 2: "client (lazyInit ?e ?d) = Some ?cl"
    by (simp add: sampleDownloader_def lazyInit_def)
  have 3: "?cl ''HEAD'' (durl ?d) = Inr ?r"
    by (simp add: sampleDownloader_def sampleClient_def)
  have 4: "checkStatus ?r = None"
    by (simp add: sampleResponse_def checkStatus_def quo64_def wrap64_def)
  have 5: "initInstanceState ?e = None" "loadedStatus ?e = None" "loadedRanges ?e = []"
    by (simp_all add: sampleEnv_def loadedStatus_def loadedRanges_def)
  have 6: "ContentLength ?r = 100" by (simp add: sampleResponse_def)
  have 7: "MaxParallel (sampleConfig 8 1024) = 8" by (simp add: sampleConfig_def)
  have 8: "MinParallelSize ?e = 256 * 1024" by (simp add: sampleEnv_def)
  from parallel_fresh [OF 1 2 3 4 5 6 _ _ 7 _ _ 8]
  show ?thesis by simp
qed

section \<open>Evaluation and the structure of a run\<close>

lemmas run_defs =
  Execute_def afterProbe_def lazyInit_def MustCheck_def checkStatus_def acceptRangesOf_def
  chooseParallel_def blockSizeOf_def capCacheSize_def buildWorkers_def loopBody_def
  newWorker_def loopVars_def loadedRanges_def loadedStatus_def monitorStatus_def
  quo64_def wrap64_def wrap32_def workersOf_def Let_def

lemmas sample_defs =
  sampleResponse_def sampleClient_def failingClient_def sampleEnv_def sampleConfig_def sampleDownloader_def

lemma workersOf_lazyInit: "workersOf (lazyInit env der) = workersOf der"
  by (cases "monitor der") (simp_all add: workersOf_def lazyInit_def Let_def)

section \<open>A failed probe\<close>

text \<open>
  C6. When the HEAD request fails in transport, \<open>Execute\<close> returns that error; when it
  answers with a status of class 4 or 5, \<open>Execute\<close> returns an error made of the status
  text. In both cases it returns at once: the downloader is as \<open>lazyInit\<close> left it, with
  the workers it had before, and the HEAD request is the only thing that happened: no
  checkpoint was loaded, no worker was built, the monitor did not run.
\<close>

theorem probe_failure:
  assumes "config der = Some cfg" "client (lazyInit env der) = Some cl"
  shows "(cl ''HEAD'' (durl der) = Inl err \<longrightarrow>
            Execute env der = \<lparr>ret = Returned (Some err), final = lazyInit env der,
                               events = [HeadRequest (durl der)]\<rparr>) \<and>
         (cl ''HEAD'' (durl der) = Inr resp \<and>
            (quo64 (StatusCode resp) 100 = 4 \<or> quo64 (StatusCode resp) 100 = 5) \<longrightarrow>
            Execute env der = \<lparr>ret = Returned (Some (ErrorsNew (Status resp))),
                               final = lazyInit env der,
                               events = [HeadRequest (durl der)]\<rparr>) \<and>
         workersOf (lazyInit env der) = workersOf der"
  using assms
  by (auto simp add: Execute_def MustCheck_lazyInit checkStatus_def Let_def workersOf_lazyInit)

theorem probe_failure_witness:
  "Execute (sampleEnv None False)
     (sampleDownloader (Some (sampleClient 404 ''404 Not Found'' 100 ''bytes'')) 8 1024) =
   \<lparr>ret = Returned (Some (ErrorsNew ''404 Not Found'')),
    final = lazyInit (sampleEnv None False)
      (sampleDownloader (Some (sampleClient 404 ''404 Not Found'' 100 ''bytes'')) 8 1024),
    events = [HeadRequest ''http://host/file'']\<rparr> \<and>
   Execute (sampleEnv None False) (sampleDownloader (Some failingClient) 8 1024) =
   \<lparr>ret = Returned (Some (ExternalError ''dial tcp: i/o timeout'')),
    final = lazyInit (sampleEnv None False) (sampleDownloader (Some failingClient) 8 1024),
    events = [HeadRequest ''http://host/file'']\<rparr>"
  using probe_failure [of "sampleDownloader (Some (sampleClient 404 ''404 Not Found'' 100 ''bytes'')) 8 1024"
      "sampleConfig 8 1024" "sampleEnv None False" "sampleClient 404 ''404 Not Found'' 100 ''bytes''"
      "ExternalError []"
      "\<lparr>StatusCode = 404, Status = ''404 Not Found'', ContentLength = 100,
        AcceptRangesHeader = ''bytes'', Req = Some \<lparr>Referer = [], URL = ''http://host/file''\<rparr>\<rparr>"]
    probe_failure [of "sampleDownloader (Some failingClient) 8 1024"
      "sampleConfig 8 1024" "sampleEnv None False" failingClient
      "ExternalError ''dial tcp: i/o timeout''"]
  by (simp add: sample_defs lazyInit_def quo64_def wrap64_def)

lemma StatusCode_irrelevant:
  "acceptRangesOf (resp\<lparr>StatusCode := c, Status := s\<rparr>) = acceptRangesOf resp"
  "monitorStatus env mon (resp\<lparr>StatusCode := c, Status := s\<rparr>) = monitorStatus env mon resp"
  "loopVars env der cl cfg mon (resp\<lparr>StatusCode := c, Status := s\<rparr>) par b =
     loopVars env der cl cfg mon resp par b"
  "ContentLength (resp\<lparr>StatusCode := c, Status := s\<rparr>) = ContentLength resp"
  by (simp_all add: acceptRangesOf_def monitorStatus_def loopVars_def split: option.split)

lemma afterProbe_StatusCode:
  "afterProbe env der cl cfg mon (resp\<lparr>StatusCode := c, Status := s\<rparr>) = afterProbe env der cl cfg mon resp"
  unfolding afterProbe_def StatusCode_irrelevant ..

lemma checkStatus_other:
  "quo64 (StatusCode resp) 100 \<noteq> 4 \<Longrightarrow> quo64 (StatusCode resp) 100 \<noteq> 5 \<Longrightarrow> checkStatus resp = None"
  by (simp add: checkStatus_def Let_def)

section \<open>Statuses that are no error\<close>

text \<open>
  C10. A HEAD response whose status class is neither 4 nor 5 (1xx and 3xx as well as 2xx)
  sends \<open>Execute\<close> on to the planning, which does not look at the status: the run is the
  one a \<open>200 OK\<close> with the same length and request would give.
\<close>

theorem other_status_proceeds:
  assumes "config der = Some cfg" "client (lazyInit env der) = Some cl"
    and "monitor (lazyInit env der) = Some mon"
    and "cl ''HEAD'' (durl der) = Inr resp"
    and "quo64 (StatusCode resp) 100 \<noteq> 4" "quo64 (StatusCode resp) 100 \<noteq> 5"
  shows "Execute env der = afterProbe env (lazyInit env der) cl cfg mon resp \<and>
         afterProbe env (lazyInit env der) cl cfg mon resp =
           afterProbe env (lazyInit env der) cl cfg mon (resp\<lparr>StatusCode := 200, Status := ''200 OK''\<rparr>)"
  using assms by (simp add: Execute_afterProbe checkStatus_other afterProbe_StatusCode)


theorem other_status_proceeds_witness:
  "quo64 302 100 \<noteq> 4 \<and> quo64 302 100 \<noteq> 5 \<and>
   ret (Execute (sampleEnv None False)
     (sampleDownloader (Some (sampleClient 302 ''302 Found'' 100 ''bytes'')) 8 1024)) = Returned None \<and>
   map wrange (workersOf (final (Execute (sampleEnv None False)
     (sampleDownloader (Some (sampleClient 302 ''302 Found'' 100 ''bytes'')) 8 1024)))) =
     [\<lparr>Begin = 0, End = 99\<rparr>]"
  using other_status_proceeds [of "sampleDownloader (Some (sampleClient 302 ''302 Found'' 100 ''bytes'')) 8 1024"
      "sampleConfig 8 1024" "sampleEnv None False" "sampleClient 302 ''302 Found'' 100 ''bytes''"
      "\<lparr>status = \<lparr>totalSize = 0, downloaded = 0\<rparr>, workers = []\<rparr>"
      "\<lparr>StatusCode = 302, Status = ''302 Found'', ContentLength = 100,
        AcceptRangesHeader = ''bytes'', Req = Some \<lparr>Referer = [], URL = ''http://host/file''\<rparr>\<rparr>"]
  by (simp add: sample_defs run_defs)

section \<open>The client\<close>

lemma chooseParallel_panic: "chooseParallel s a rs m t = Inl p \<Longrightarrow> p = DivideByZero"
  by (simp add: chooseParallel_def Let_def split: if_splits)

lemma blockSizeOf_panic: "blockSizeOf t n = Inl p \<Longrightarrow> p = DivideByZero"
  by (simp add: blockSizeOf_def split: if_splits)

lemma loopBody_panic: "loopBody v i s = Inl p \<Longrightarrow> p = IndexOutOfRange"
  by (cases s) (simp add: loopBody_def Let_def split: if_splits)

lemma workerLoop_panic: "workerLoop v k = Inl p \<Longrightarrow> p = IndexOutOfRange"
  by (induction k) (auto split: sum.splits dest: loopBody_panic)

lemma buildWorkers_panic: "buildWorkers v = Inl p \<Longrightarrow> p = MakeSliceCap \<or> p = IndexOutOfRange"
  by (auto simp: buildWorkers_def split: if_splits sum.splits dest: workerLoop_panic)

lemma afterProbe_panic:
  "ret (afterProbe env der cl cfg mon resp) = Panicked p \<Longrightarrow>
     p = DivideByZero \<or> p = MakeSliceCap \<or> p = IndexOutOfRange"
  by (auto simp: afterProbe_def Let_def split: option.splits sum.splits
      dest: chooseParallel_panic blockSizeOf_panic buildWorkers_panic)

lemma workerLoop_Inr_empty: "l_ranges v = [] \<Longrightarrow> \<exists>s. workerLoop v k = Inr s"
  by (induction k) (auto simp: loopBody_def Let_def)

lemma chooseParallel_ranges:
  "chooseParallel s a rs m t = Inr par \<Longrightarrow> rs \<noteq> [] \<Longrightarrow> par = 1 \<or> par = int (length rs)"
  by (auto simp: chooseParallel_def Let_def split: if_splits)

lemma workerLoop_Inr_ranges:
  "k \<le> length (l_ranges v) \<Longrightarrow> \<exists>s. workerLoop v k = Inr s"
  by (induction k) (auto simp: loopBody_def)

lemma buildWorkers_no_index_panic:
  assumes "l_ranges v = [] \<or> nat (l_parallel v) \<le> length (l_ranges v)"
  shows "buildWorkers v \<noteq> Inl IndexOutOfRange"
proof -
  obtain s where "workerLoop v (nat (l_parallel v)) = Inr s"
    using assms workerLoop_Inr_empty workerLoop_Inr_ranges by blast
  then show ?thesis by (simp add: buildWorkers_def)
qed

lemma afterProbe_no_index_panic:
  "ret (afterProbe env der cl cfg mon resp) \<noteq> Panicked IndexOutOfRange"
proof
  assume a: "ret (afterProbe env der cl cfg mon resp) = Panicked IndexOutOfRange"
  then obtain par b where
    par: "chooseParallel (MinParallelSize env) (acceptRangesOf resp) (loadedRanges env)
           (MaxParallel cfg) (totalSize (monitorStatus env mon resp)) = Inr par" and
    ws: "buildWorkers (loopVars env der cl cfg mon resp par b) = Inl IndexOutOfRange"
    by (auto simp: afterProbe_def Let_def split: option.splits sum.splits
        dest: chooseParallel_panic blockSizeOf_panic)
  have "loadedRanges env = [] \<or> nat par \<le> length (loadedRanges env)"
    using chooseParallel_ranges [OF par] by (cases "loadedRanges env") auto
  then show False
    using ws buildWorkers_no_index_panic [of "loopVars env der cl cfg mon resp par b"]
    by (simp add: loopVars_def)
qed

lemma afterProbe_events_head:
  "\<exists>evs. events (afterProbe env der cl cfg mon resp) = HeadRequest (durl der) # evs"
  by (simp add: afterProbe_def Let_def split: option.split sum.split)

lemma afterProbe_client:
  "client (final (afterProbe env der cl cfg mon resp)) = client der"
  by (simp add: afterProbe_def Let_def split: option.split sum.split)


lemma Execute_cases:
  assumes "config der = Some cfg"
  obtains (transport) err where
      "Execute env der = \<lparr>ret = Returned (Some err), final = lazyInit env der,
         events = [HeadRequest (durl der)]\<rparr>"
    | (planned) cl mon resp where "client (lazyInit env der) = Some cl"
        "Execute env der = afterProbe env (lazyInit env der) cl cfg mon resp"
proof -
  obtain cl where cl: "client (lazyInit env der) = Some cl" by (simp add: lazyInit_client)
  obtain mon where mon: "monitor (lazyInit env der) = Some mon" by (simp add: lazyInit_monitor)
  show thesis
  proof (cases "cl ''HEAD'' (durl der)")
    case (Inl err)
    then show thesis
      using assms cl by (intro transport [of err]) (simp add: Execute_def MustCheck_lazyInit)
  next
    case (Inr resp)
    show thesis
    proof (cases "checkStatus resp")
      case None
      then show thesis
        using assms cl mon Inr by (intro planned [of cl mon resp]) (simp_all add: Execute_afterProbe)
    next
      case (Some err)
      then show thesis
        using assms cl Inr by (intro transport [of err]) (simp add: Execute_def MustCheck_lazyInit)
    qed
  qed
qed

lemma Execute_no_index_panic: "ret (Execute env der) \<noteq> Panicked IndexOutOfRange"
proof (cases "config der")
  case None
  then show ?thesis by (simp add: Execute_def MustCheck_def Let_def)
next
  case (Some cfg)
  then show ?thesis
  proof (cases rule: Execute_cases [where env = env])
    case (transport err)
    then show ?thesis by simp
  next
    case (planned cl mon resp)
    then show ?thesis by (simp add: afterProbe_no_index_panic)
  qed
qed

text \<open>
  C8, as amended. \<open>Execute\<close> on a downloader into which no client was injected does not
  fail for that: \<open>lazyInit\<close> installs the default client of
  \<open>requester.NewHTTPClient\<close>, \<open>MustCheck\<close> then passes, \<open>Execute\<close> never panics with
  "client is nil" and goes on to the HEAD probe with the default client.
\<close>

theorem missing_client_default:
  assumes "client der = None" "config der = Some cfg"
  shows "MustCheck (lazyInit env der) = None \<and>
         client (final (Execute env der)) = Some (NewHTTPClient env) \<and>
         ret (Execute env der) \<noteq> Panicked ClientIsNil \<and>
         (\<exists>evs. events (Execute env der) = HeadRequest (durl der) # evs)"
proof -
  have c: "client (lazyInit env der) = Some (NewHTTPClient env)"
    using assms by (simp add: lazyInit_client)
  from assms(2) show ?thesis
  proof (cases rule: Execute_cases [where env = env])
    case (transport err)
    then show ?thesis using assms c by (simp add: MustCheck_lazyInit)
  next
    case (planned cl mon resp)
    then show ?thesis
      using assms c afterProbe_panic [of env "lazyInit env der" cl cfg mon resp ClientIsNil]
        afterProbe_events_head [of env "lazyInit env der" cl cfg mon resp]
      by (auto simp add: MustCheck_lazyInit afterProbe_client)
  qed
qed

theorem missing_client_default_witness:
  "client (sampleDownloader None 8 1024) = None \<and>
   ret (Execute (sampleEnv None False) (sampleDownloader None 8 1024)) \<noteq> Panicked ClientIsNil \<and>
   client (final (Execute (sampleEnv None False) (sampleDownloader None 8 1024))) =
     Some (sampleClient 200 ''200 OK'' 100 ''bytes'')"
  using missing_client_default [of "sampleDownloader None 8 1024" "sampleConfig 8 1024" "sampleEnv None False"]
  by (simp add: sample_defs)

text \<open>
  C8 as stated fails: with no client injected, against a server that answers
  \<open>200 OK\<close> with a length of 100, \<open>Execute\<close> returns \<open>nil\<close>.
\<close>

theorem missing_client_counterexample:
  "client (sampleDownloader None 8 1024) = None \<and>
   ret (Execute (sampleEnv None False) (sampleDownloader None 8 1024)) = Returned None"
  by (simp add: sample_defs run_defs)

section \<open>Cancelling\<close>




section \<open>Runs that reach the monitor\<close>

lemma afterProbe_run:
  assumes "initInstanceState env = None"
    and "chooseParallel (MinParallelSize env) (acceptRangesOf resp) (loadedRanges env)
           (MaxParallel cfg) (totalSize (monitorStatus env mon resp)) = Inr par"
    and "blockSizeOf (totalSize (monitorStatus env mon resp)) par = Inr b"
    and "buildWorkers (loopVars env der cl cfg mon resp par b) = Inr ws"
  shows "afterProbe env der cl cfg mon resp =
     \<lparr>ret = Returned None,
      final = der\<lparr>monitor := Some (mon\<lparr>status := monitorStatus env mon resp, workers := ws\<rparr>),
                  config := Some (cfg\<lparr>parallel := par,
                                      cacheSize := capCacheSize (CacheSize cfg) b\<rparr>)\<rparr>,
      events = [HeadRequest (durl der), InitInstanceState] @ map Append ws
        @ [SetInstanceState, OnExecute, MonitorExecute ws (cancelled env),
           RemoveInstanceState, OnFinish]\<rparr>"
  using assms by (simp add: afterProbe_def Let_def)

lemma afterProbe_Returned_None:
  assumes "ret (afterProbe env der cl cfg mon resp) = Returned None"
  obtains par b ws where
    "chooseParallel (MinParallelSize env) (acceptRangesOf resp) (loadedRanges env)
           (MaxParallel cfg) (totalSize (monitorStatus env mon resp)) = Inr par"
    "blockSizeOf (totalSize (monitorStatus env mon resp)) par = Inr b"
    "buildWorkers (loopVars env der cl cfg mon resp par b) = Inr ws"
    "final (afterProbe env der cl cfg mon resp) =
       der\<lparr>monitor := Some (mon\<lparr>status := monitorStatus env mon resp, workers := ws\<rparr>),
           config := Some (cfg\<lparr>parallel := par, cacheSize := capCacheSize (CacheSize cfg) b\<rparr>)\<rparr>"
  using assms by (auto simp: afterProbe_def Let_def split: option.splits sum.splits)

section \<open>Resuming from a checkpoint\<close>

lemma workerLoop_ranges:
  assumes "l_ranges v = rs" "k \<le> length rs"
  shows "workerLoop v k = Inr (0, map (\<lambda>i. newWorker v (int i) (rs ! i)) [0..<k])"
  using assms by (induction k) (auto simp: loopBody_def)

lemma buildWorkers_ranges:
  assumes "l_ranges v = rs" "l_parallel v = int (length rs)"
  shows "buildWorkers v = Inr (map (\<lambda>i. newWorker v (int i) (rs ! i)) [0..<length rs])"
  using assms by (simp add: buildWorkers_def workerLoop_ranges)

lemma wrange_newWorker [simp]: "wrange (newWorker v i r) = r"
  and wacceptRanges_newWorker [simp]: "wacceptRanges (newWorker v i r) = l_acceptRanges v"
  and wcacheSize_newWorker [simp]: "wcacheSize (newWorker v i r) = l_cacheSize v"
  by (simp_all add: newWorker_def)

text \<open>
  C7. When the loaded checkpoint holds a non-empty list of ranges and the server reports a
  length above zero, \<open>Execute\<close> runs to the end, sets \<open>config.parallel\<close> to the number of
  persisted ranges and gives worker \<open>i\<close> the \<open>i\<close>-th of them, whatever
  \<open>MaxParallel\<close> and \<open>MinParallelSize\<close> are. In the witness \<open>MaxParallel\<close> is 1 and
  two ranges are resumed.
\<close>

theorem resume_plan:
  assumes "config der = Some cfg" "client (lazyInit env der) = Some cl"
    and "cl ''HEAD'' (durl der) = Inr resp" "checkStatus resp = None"
    and "initInstanceState env = None"
    and "instanceStateGet env = Some ii" "Ranges ii = rs" "rs \<noteq> []"
    and "0 < ContentLength resp"
  shows "ret (Execute env der) = Returned None \<and>
         map_option parallel (config (final (Execute env der))) = Some (int (length rs)) \<and>
         map wrange (workersOf (final (Execute env der))) = rs"
proof -
  obtain mon where mon: "monitor (lazyInit env der) = Some mon"
    by (simp add: lazyInit_monitor)
  let ?T = "totalSize (monitorStatus env mon resp)"
  let ?k = "int (length rs)"
  let ?v = "loopVars env (lazyInit env der) cl cfg mon resp ?k (quo64 ?T ?k)"
  have rs: "loadedRanges env = rs" using assms by (simp add: loadedRanges_def)
  have E: "Execute env der = afterProbe env (lazyInit env der) cl cfg mon resp"
    using assms mon by (intro Execute_afterProbe)
  have par: "chooseParallel (MinParallelSize env) (acceptRangesOf resp) (loadedRanges env)
      (MaxParallel cfg) ?T = Inr ?k"
    using assms rs by (simp add: chooseParallel_def acceptRangesOf_def)
  have b: "blockSizeOf ?T ?k = Inr (quo64 ?T ?k)"
    using assms by (simp add: blockSizeOf_def)
  have ws: "buildWorkers ?v = Inr (map (\<lambda>i. newWorker ?v (int i) (rs ! i)) [0..<length rs])"
    using rs by (intro buildWorkers_ranges) (simp_all add: loopVars_def)
  show ?thesis
    unfolding E afterProbe_run [OF assms(5) par b ws]
    by (simp add: workersOf_def comp_def map_nth)
qed


theorem resume_plan_witness:
  "ret (Execute (sampleEnv (Some sampleInstanceInfo) False)
     (sampleDownloader (Some (sampleClient 200 ''200 OK'' 200 ''none'')) 1 1024)) = Returned None \<and>
   map_option parallel (config (final (Execute (sampleEnv (Some sampleInstanceInfo) False)
     (sampleDownloader (Some (sampleClient 200 ''200 OK'' 200 ''none'')) 1 1024)))) = Some 2 \<and>
   map wrange (workersOf (final (Execute (sampleEnv (Some sampleInstanceInfo) False)
     (sampleDownloader (Some (sampleClient 200 ''200 OK'' 200 ''none'')) 1 1024)))) =
     [\<lparr>Begin = 50, End = 99\<rparr>, \<lparr>Begin = 120, End = 199\<rparr>]"
  using resume_plan [of "sampleDownloader (Some (sampleClient 200 ''200 OK'' 200 ''none'')) 1 1024"
      "sampleConfig 1 1024" "sampleEnv (Some sampleInstanceInfo) False"
      "sampleClient 200 ''200 OK'' 200 ''none''"
      "sampleResponse 200 ''200 OK'' 200 ''none'' ''http://host/file''"
      sampleInstanceInfo "[\<lparr>Begin = 50, End = 99\<rparr>, \<lparr>Begin = 120, End = 199\<rparr>]"]
  by (simp add: sample_defs sampleInstanceInfo_def lazyInit_def checkStatus_def quo64_def wrap64_def)

section \<open>Range support\<close>

lemma AcceptRangesHeader_irrelevant:
  "acceptRangesOf (resp\<lparr>AcceptRangesHeader := h\<rparr>) = acceptRangesOf resp"
  "monitorStatus env mon (resp\<lparr>AcceptRangesHeader := h\<rparr>) = monitorStatus env mon resp"
  "loopVars env der cl cfg mon (resp\<lparr>AcceptRangesHeader := h\<rparr>) par b =
     loopVars env der cl cfg mon resp par b"
  "ContentLength (resp\<lparr>AcceptRangesHeader := h\<rparr>) = ContentLength resp"
  by (simp_all add: acceptRangesOf_def monitorStatus_def loopVars_def split: option.split)

lemma afterProbe_AcceptRangesHeader:
  "afterProbe env der cl cfg mon (resp\<lparr>AcceptRangesHeader := h\<rparr>) = afterProbe env der cl cfg mon resp"
  unfolding afterProbe_def AcceptRangesHeader_irrelevant ..

lemma workerLoop_fields:
  "workerLoop v k = Inr (b, ws) \<Longrightarrow> w \<in> set ws \<Longrightarrow>
     wacceptRanges w = l_acceptRanges v \<and> wcacheSize w = l_cacheSize v"
proof (induction k arbitrary: b ws)
  case 0
  then show ?case by simp
next
  case (Suc k)
  then show ?case
    by (auto simp: loopBody_def Let_def split: sum.splits if_splits)
qed

lemma buildWorkers_fields:
  "buildWorkers v = Inr ws \<Longrightarrow> w \<in> set ws \<Longrightarrow>
     wacceptRanges w = l_acceptRanges v \<and> wcacheSize w = l_cacheSize v"
  by (auto simp: buildWorkers_def split: if_splits sum.splits dest: workerLoop_fields)

lemma buildWorkers_one:
  assumes "l_parallel v = 1"
  shows "\<exists>r. buildWorkers v = Inr [newWorker v 0 r]"
proof (cases "l_ranges v")
  case Nil
  then show ?thesis using assms by (auto simp add: buildWorkers_def loopBody_def Let_def)
next
  case (Cons r rs)
  then show ?thesis using assms by (auto simp add: buildWorkers_def loopBody_def Let_def)
qed

lemma afterProbe_workers:
  assumes "ret (afterProbe env der cl cfg mon resp) = Returned None"
    and "w \<in> set (workersOf (final (afterProbe env der cl cfg mon resp)))"
  shows "wacceptRanges w = acceptRangesOf resp"
    and "map_option cacheSize (config (final (afterProbe env der cl cfg mon resp))) = Some (wcacheSize w)"
proof -
  from assms(1) obtain par b ws where
    ws: "buildWorkers (loopVars env der cl cfg mon resp par b) = Inr ws" and
    f: "final (afterProbe env der cl cfg mon resp) =
       der\<lparr>monitor := Some (mon\<lparr>status := monitorStatus env mon resp, workers := ws\<rparr>),
           config := Some (cfg\<lparr>parallel := par, cacheSize := capCacheSize (CacheSize cfg) b\<rparr>)\<rparr>"
    by (rule afterProbe_Returned_None)
  have "w \<in> set ws" using assms(2) f by (simp add: workersOf_def)
  from buildWorkers_fields [OF ws this]
  show "wacceptRanges w = acceptRangesOf resp"
    and "map_option cacheSize (config (final (afterProbe env der cl cfg mon resp))) = Some (wcacheSize w)"
    using f by (simp_all add: loopVars_def)
qed

text \<open>
  C5. Range support is decided by the reported length alone. The run is the one the
  planning gives for the same response with any other \<open>Accept-Ranges\<close> header \<open>h\<close>. With
  a length of zero or less the run has one worker, told that ranges are not supported, and
  \<open>config.parallel\<close> is 1; with a length above zero every worker is told \<open>bytes\<close>.
\<close>

theorem range_support_from_length:
  assumes "config der = Some cfg" "client (lazyInit env der) = Some cl"
    and "monitor (lazyInit env der) = Some mon"
    and "cl ''HEAD'' (durl der) = Inr resp" "checkStatus resp = None"
    and "initInstanceState env = None"
  shows "Execute env der =
           afterProbe env (lazyInit env der) cl cfg mon (resp\<lparr>AcceptRangesHeader := h\<rparr>) \<and>
         (ContentLength resp \<le> 0 \<longrightarrow>
            ret (Execute env der) = Returned None \<and>
            map_option parallel (config (final (Execute env der))) = Some 1 \<and>
            map wacceptRanges (workersOf (final (Execute env der))) = [[]]) \<and>
         (0 < ContentLength resp \<and> ret (Execute env der) = Returned None \<longrightarrow>
            (\<forall>w \<in> set (workersOf (final (Execute env der))). wacceptRanges w = ''bytes''))"
proof -
  let ?T = "totalSize (monitorStatus env mon resp)"
  have E: "Execute env der = afterProbe env (lazyInit env der) cl cfg mon resp"
    using assms by (intro Execute_afterProbe)
  have one: "ret (Execute env der) = Returned None \<and>
            map_option parallel (config (final (Execute env der))) = Some 1 \<and>
            map wacceptRanges (workersOf (final (Execute env der))) = [[]]"
    if le: "ContentLength resp \<le> 0"
  proof -
    let ?v = "loopVars env (lazyInit env der) cl cfg mon resp 1 (quo64 ?T 1)"
    have ar: "acceptRangesOf resp = []" using le by (simp add: acceptRangesOf_def)
    have par: "chooseParallel (MinParallelSize env) (acceptRangesOf resp) (loadedRanges env)
        (MaxParallel cfg) ?T = Inr 1"
      using ar by (simp add: chooseParallel_def)
    have b: "blockSizeOf ?T 1 = Inr (quo64 ?T 1)" by (simp add: blockSizeOf_def)
    obtain r where ws: "buildWorkers ?v = Inr [newWorker ?v 0 r]"
      using buildWorkers_one [of ?v] by (auto simp: loopVars_def)
    show ?thesis
      unfolding E afterProbe_run [OF assms(6) par b ws]
      using ar by (simp add: workersOf_def loopVars_def)
  qed
  have many: "\<forall>w \<in> set (workersOf (final (Execute env der))). wacceptRanges w = ''bytes''"
    if "0 < ContentLength resp" "ret (Execute env der) = Returned None"
    using that afterProbe_workers(1) [of env "lazyInit env der" cl cfg mon resp]
    by (auto simp: E acceptRangesOf_def)
  show ?thesis using E one many by (simp add: afterProbe_AcceptRangesHeader)
qed

section \<open>The cache size\<close>

theorem range_support_from_length_witness:
  "map_option parallel (config (final (Execute (sampleEnv None False)
      (sampleDownloader (Some (sampleClient 200 ''200 OK'' (- 1) ''bytes'')) 8 1024)))) = Some 1 \<and>
   map wacceptRanges (workersOf (final (Execute (sampleEnv None False)
      (sampleDownloader (Some (sampleClient 200 ''200 OK'' (- 1) ''bytes'')) 8 1024)))) = [[]] \<and>
   map wacceptRanges (workersOf (final (Execute (sampleEnv None False)
      (sampleDownloader (Some (sampleClient 200 ''200 OK'' 100 ''none'')) 8 1024)))) = [''bytes'']"
proof -
  let ?e = "sampleEnv None False"
  let ?cl = "sampleClient 200 ''200 OK'' (- 1) ''bytes''"
  let ?d = "sampleDownloader (Some ?cl) 8 1024"
  let ?r = "sampleResponse 200 ''200 OK'' (- 1) ''bytes'' ''http://host/file''"
  have 1: "config ?d = Some (sampleConfig 8 1024)" by (simp add: sample_defs)
  have 2: "client (lazyInit ?e ?d) = Some ?cl" by (simp add: sample_defs lazyInit_def)
  have 3: "monitor (lazyInit ?e ?d) = Some \<lparr>status = \<lparr>totalSize = 0, downloaded = 0\<rparr>, workers = []\<rparr>"
    by (simp add: sample_defs lazyInit_def)
  have 4: "?cl ''HEAD'' (durl ?d) = Inr ?r" by (simp add: sample_defs)
  have 5: "checkStatus ?r = None" by (simp add: sample_defs checkStatus_def quo64_def wrap64_def)
  have 6: "initInstanceState ?e = None" by (simp add: sample_defs)
  have 7: "ContentLength ?r \<le> 0" by (simp add: sample_defs)
  have 8: "map wacceptRanges (workersOf (final (Execute ?e
      (sampleDownloader (Some (sampleClient 200 ''200 OK'' 100 ''none'')) 8 1024)))) = [''bytes'']"
    by (simp add: sample_defs run_defs)
  from range_support_from_length [OF 1 2 3 4 5 6, of "[]"] 7
  have "map_option parallel (config (final (Execute ?e ?d))) = Some 1 \<and>
        map wacceptRanges (workersOf (final (Execute ?e ?d))) = [[]]"
    by blast
  with 8 show ?thesis by blast
qed

section \<open>The cache size\<close>

lemma buildWorkers_parallel_nonneg: "buildWorkers v = Inr ws \<Longrightarrow> 0 \<le> l_parallel v"
  by (simp add: buildWorkers_def split: if_splits)

lemma capCacheSize_min: "capCacheSize c b = min c b"
  by (simp add: capCacheSize_def)

text \<open>
  C4. In every run that reaches its workers, with total size \<open>T > 0\<close>, configured cache
  size \<open>C\<close> and chosen parallelism \<open>N\<close> (which is then at least 1), the cache size that
  \<open>Execute\<close> writes to the config and passes to \<open>SetCacheSize\<close> of every worker is
  \<open>min C (T div N)\<close>, which is at most \<open>C\<close>.
\<close>

theorem effective_cache_size:
  assumes "config der = Some cfg" "ret (Execute env der) = Returned None"
    and "monitor (final (Execute env der)) = Some mon'"
    and "config (final (Execute env der)) = Some cfg'"
    and "totalSize (status mon') = T" "0 < T" "T < 2 ^ 63"
  shows "1 \<le> parallel cfg' \<and>
         cacheSize cfg' = min (CacheSize cfg) (T div parallel cfg') \<and>
         (\<forall>w \<in> set (workers mon'). wcacheSize w = cacheSize cfg') \<and>
         cacheSize cfg' \<le> CacheSize cfg"
  using assms(1)
proof (cases rule: Execute_cases [where env = env])
  case (transport err)
  then show ?thesis using assms by simp
next
  case (planned cl mon resp)
  let ?d = "lazyInit env der"
  from assms(2) planned obtain par b ws where
    b: "blockSizeOf (totalSize (monitorStatus env mon resp)) par = Inr b" and
    ws: "buildWorkers (loopVars env ?d cl cfg mon resp par b) = Inr ws" and
    f: "final (afterProbe env ?d cl cfg mon resp) =
       ?d\<lparr>monitor := Some (mon\<lparr>status := monitorStatus env mon resp, workers := ws\<rparr>),
           config := Some (cfg\<lparr>parallel := par, cacheSize := capCacheSize (CacheSize cfg) b\<rparr>)\<rparr>"
    by (auto elim: afterProbe_Returned_None)
  have mon': "mon' = mon\<lparr>status := monitorStatus env mon resp, workers := ws\<rparr>"
    and cfg': "cfg' = cfg\<lparr>parallel := par, cacheSize := capCacheSize (CacheSize cfg) b\<rparr>"
    using assms(3,4) planned f by simp_all
  have T: "totalSize (monitorStatus env mon resp) = T"
    using assms(5) mon' by simp
  have "par \<noteq> 0" and bq: "b = quo64 T par"
    using b T by (auto simp: blockSizeOf_def split: if_splits)
  moreover have "0 \<le> par"
    using buildWorkers_parallel_nonneg [OF ws] by (simp add: loopVars_def)
  ultimately have par: "1 \<le> par" by simp
  then have bd: "b = T div par"
    using bq assms(6,7) by (simp add: quo64_nonneg)
  have w: "\<forall>w \<in> set ws. wcacheSize w = capCacheSize (CacheSize cfg) b"
    using buildWorkers_fields [OF ws] by (simp add: loopVars_def)
  show ?thesis
    using par bd w by (simp add: mon' cfg' capCacheSize_min)
qed

lemma sample_run_100:
  "Execute (sampleEnv None c) (sampleDownloader (Some (sampleClient 200 ''200 OK'' 100 h)) 8 1024) =
   \<lparr>ret = Returned None,
    final = \<lparr>durl = ''http://host/file'', writer = Some ''file'',
             client = Some (sampleClient 200 ''200 OK'' 100 h),
             config = Some \<lparr>MaxParallel = 8, CacheSize = 1024, IsTest = False,
                            InstanceStatePath = ''file.BaiduPCS-Go-downloading'',
                            parallel = 1, cacheSize = 100\<rparr>,
             monitor = Some \<lparr>status = \<lparr>totalSize = 100, downloaded = 0\<rparr>,
                             workers = [\<lparr>wid = 0, wurl = ''http://host/file'',
                                        wwriterAt = Some ''file'',
                                        wclient = sampleClient 200 ''200 OK'' 100 h,
                                        wcacheSize = 100, wreferer = [],
                                        wacceptRanges = ''bytes'',
                                        wrange = \<lparr>Begin = 0, End = 99\<rparr>\<rparr>]\<rparr>\<rparr>,
    events = [HeadRequest ''http://host/file'', InitInstanceState,
              Append \<lparr>wid = 0, wurl = ''http://host/file'', wwriterAt = Some ''file'',
                      wclient = sampleClient 200 ''200 OK'' 100 h,
                      wcacheSize = 100, wreferer = [], wacceptRanges = ''bytes'',
                      wrange = \<lparr>Begin = 0, End = 99\<rparr>\<rparr>,
              SetInstanceState, OnExecute,
              MonitorExecute [\<lparr>wid = 0, wurl = ''http://host/file'', wwriterAt = Some ''file'',
                      wclient = sampleClient 200 ''200 OK'' 100 h,
                      wcacheSize = 100, wreferer = [], wacceptRanges = ''bytes'',
                      wrange = \<lparr>Begin = 0, End = 99\<rparr>\<rparr>] c,
              RemoveInstanceState, OnFinish]\<rparr>"
  by (simp add: sample_defs run_defs)

theorem effective_cache_size_witness:
  "map_option cacheSize (config (final (Execute (sampleEnv None False)
      (sampleDownloader (Some (sampleClient 200 ''200 OK'' 100 ''bytes'')) 8 1024)))) = Some 100 \<and>
   map wcacheSize (workersOf (final (Execute (sampleEnv None False)
      (sampleDownloader (Some (sampleClient 200 ''200 OK'' 100 ''bytes'')) 8 1024)))) = [100] \<and>
   (100::int) = min 1024 (100 div 1)"
proof -
  let ?e = "sampleEnv None False"
  let ?d = "sampleDownloader (Some (sampleClient 200 ''200 OK'' 100 ''bytes'')) 8 1024"
  have 1: "config ?d = Some (sampleConfig 8 1024)" by (simp add: sample_defs)
  have 2: "ret (Execute ?e ?d) = Returned None" by (simp add: sample_run_100)
  have 3: "monitor (final (Execute ?e ?d)) =
      Some \<lparr>status = \<lparr>totalSize = 100, downloaded = 0\<rparr>,
            workers = [\<lparr>wid = 0, wurl = ''http://host/file'', wwriterAt = Some ''file'',
                       wclient = sampleClient 200 ''200 OK'' 100 ''bytes'',
                       wcacheSize = 100, wreferer = [], wacceptRanges = ''bytes'',
                       wrange = \<lparr>Begin = 0, End = 99\<rparr>\<rparr>]\<rparr>"
    by (simp add: sample_run_100)
  have 4: "config (final (Execute ?e ?d)) =
      Some \<lparr>MaxParallel = 8, CacheSize = 1024, IsTest = False,
            InstanceStatePath = ''file.BaiduPCS-Go-downloading'', parallel = 1, cacheSize = 100\<rparr>"
    by (simp add: sample_run_100)
  from effective_cache_size [OF 1 2 3 4, of 100] 3 4
  show ?thesis by (simp add: workersOf_def sampleConfig_def)
qed


section \<open>The ranges of a fresh plan\<close>

lemma block_facts:
  assumes "0 < (T::int)" "1 \<le> N"
  shows "0 \<le> T div N" and "N * (T div N) \<le> T" and "(N - 1) * (T div N) \<le> T - 1"
proof -
  show nn: "0 \<le> T div N" using assms by (simp add: pos_imp_zdiv_nonneg_iff)
  show le: "N * (T div N) \<le> T" using assms by (intro div_mult_le_int) auto
  show "(N - 1) * (T div N) \<le> T - 1"
  proof (cases "T div N = 0")
    case True
    then show ?thesis using assms by simp
  next
    case False
    then have "1 \<le> T div N" using nn by linarith
    moreover have "(N - 1) * (T div N) = N * (T div N) - T div N"
      by (simp add: algebra_simps)
    ultimately show ?thesis using le by linarith
  qed
qed

lemma mult_block_le:
  assumes "0 \<le> (B::int)" "j \<le> N"
  shows "j * B \<le> N * B"
  using assms by (simp add: mult_right_mono)

lemma workerLoop_fresh:
  assumes v: "l_ranges v = []" "l_blockSize v = T div N" "l_totalSize v = T" "l_parallel v = N"
    and T: "0 < T" "T < 2 ^ 63" and N: "1 \<le> N" "N < 2 ^ 63"
    and k: "int k \<le> N"
  shows "\<exists>b. workerLoop v k = Inr (b, map (\<lambda>i. newWorker v (int i) (spec_range T N i)) [0..<k]) \<and>
             (int k < N \<longrightarrow> b = (if k = 0 then 0 else int k * (T div N) + 1))"
  using k
proof (induction k)
  case 0
  then show ?case by simp
next
  case (Suc k)
  let ?B = "T div N"
  from Suc.prems have kN: "int k < N" by simp
  with Suc.IH obtain b where
    loop: "workerLoop v k = Inr (b, map (\<lambda>i. newWorker v (int i) (spec_range T N i)) [0..<k])"
    and b: "b = (if k = 0 then 0 else int k * ?B + 1)"
    by auto
  have B: "0 \<le> ?B" and NB: "N * ?B \<le> T" and N1B: "(N - 1) * ?B \<le> T - 1"
    using block_facts [OF T(1) N(1)] by simp_all
  have w1: "wrap64 (int k + 1) = int k + 1"
    using kN N by (intro wrap64_id) auto
  have e_le: "(int k + 1) * ?B \<le> T"
    using mult_block_le [OF B, of "int k + 1" N] kN NB by simp
  have e_nn: "0 \<le> (int k + 1) * ?B" using B by simp
  have w2: "wrap64 ((int k + 1) * ?B) = (int k + 1) * ?B"
    using e_le e_nn T by (intro wrap64_id) auto
  have w3: "wrap64 (N - 1) = N - 1"
    using N by (intro wrap64_id) auto
  have w4: "wrap64 (T - 1) = T - 1"
    using T by (intro wrap64_id) auto
  have r: "(if int k = N - 1
            then \<lparr>Begin = b, End = (int k + 1) * ?B\<rparr>\<lparr>End := T - 1\<rparr>
            else \<lparr>Begin = b, End = (int k + 1) * ?B\<rparr>) = spec_range T N k"
    using b by (simp add: spec_range_def)
  have w5: "wrap64 ((int k + 1) * ?B + 1) = (int k + 1) * ?B + 1" if "int (Suc k) < N"
  proof -
    have "(int k + 1) * ?B \<le> (N - 1) * ?B"
      using mult_block_le [OF B, of "int k + 1" "N - 1"] that by simp
    then have "(int k + 1) * ?B + 1 \<le> T" using N1B by linarith
    then show ?thesis using e_nn T by (intro wrap64_id) auto
  qed
  have body: "loopBody v (int k) (b, map (\<lambda>i. newWorker v (int i) (spec_range T N i)) [0..<k]) =
      Inr (wrap64 ((int k + 1) * ?B + 1),
           map (\<lambda>i. newWorker v (int i) (spec_range T N i)) [0..<Suc k])"
    using r by (auto simp add: loopBody_def Let_def v w1 w2 w3 w4 split: if_splits)
  show ?case
    using loop body w5 by (auto simp add: algebra_simps)
qed

lemma buildWorkers_fresh:
  assumes "l_ranges v = []" "l_blockSize v = T div N" "l_totalSize v = T" "l_parallel v = N"
    and "0 < T" "T < 2 ^ 63" "1 \<le> N" "N < 2 ^ 63"
  shows "buildWorkers v = Inr (map (\<lambda>i. newWorker v (int i) (spec_range T N i)) [0..<nat N])"
proof -
  have "int (nat N) \<le> N" using assms by simp
  from workerLoop_fresh [OF assms this] obtain b where
    "workerLoop v (nat N) = Inr (b, map (\<lambda>i. newWorker v (int i) (spec_range T N i)) [0..<nat N])"
    by auto
  then show ?thesis using assms by (simp add: buildWorkers_def)
qed


lemma ivl_join: "0 \<le> (a::int) \<Longrightarrow> a \<le> c \<Longrightarrow> {0..a} \<union> {a + 1..c} = {0..c}"
  by auto

lemma spec_range_inner:
  assumes "int i < N - 1"
  shows "spec_range T N i =
    \<lparr>Begin = (if i = 0 then 0 else int i * (T div N) + 1), End = (int i + 1) * (T div N)\<rparr>"
  using assms by (simp add: spec_range_def)

lemma spec_range_last:
  assumes "int i = N - 1"
  shows "spec_range T N i =
    \<lparr>Begin = (if i = 0 then 0 else (N - 1) * (T div N) + 1), End = T - 1\<rparr>"
  using assms by (simp add: spec_range_def)

lemma spec_range_prefix:
  assumes "0 < T" "1 \<le> N" "int (Suc k) \<le> N - 1"
  shows "(\<Union>i<Suc k. {Begin (spec_range T N i)..End (spec_range T N i)}) =
           {0..int (Suc k) * (T div N)} \<and>
         (\<Sum>i<Suc k. End (spec_range T N i) - Begin (spec_range T N i) + 1) =
           int (Suc k) * (T div N) + 1"
  using assms(3)
proof (induction k)
  case 0
  then show ?case by (simp add: spec_range_inner lessThan_Suc)
next
  case (Suc k)
  let ?B = "T div N"
  have B: "0 \<le> ?B" using block_facts(1) [OF assms(1,2)] .
  from Suc.prems have inner: "int (Suc k) < N - 1" by simp
  from Suc.prems Suc.IH have
    IHu: "(\<Union>i<Suc k. {Begin (spec_range T N i)..End (spec_range T N i)}) = {0..int (Suc k) * ?B}"
    and IHs: "(\<Sum>i<Suc k. End (spec_range T N i) - Begin (spec_range T N i) + 1) = int (Suc k) * ?B + 1"
    by simp_all
  have r: "spec_range T N (Suc k) =
      \<lparr>Begin = int (Suc k) * ?B + 1, End = (int (Suc k) + 1) * ?B\<rparr>"
    using spec_range_inner [OF inner, of T] by simp
  have nn: "0 \<le> int (Suc k) * ?B" using B by simp
  have st: "(int (Suc k) + 1) * ?B = int (Suc k) * ?B + ?B" by (simp add: algebra_simps)
  have "{0..int (Suc k) * ?B} \<union> {int (Suc k) * ?B + 1..int (Suc k) * ?B + ?B} =
      {0..int (Suc k) * ?B + ?B}"
    using B nn by (intro ivl_join) auto
  then have u: "{0..int (Suc k) * ?B} \<union> {int (Suc k) * ?B + 1..(int (Suc k) + 1) * ?B} =
      {0..int (Suc (Suc k)) * ?B}"
    unfolding st by (simp add: algebra_simps)
  have "(\<Union>i<Suc (Suc k). {Begin (spec_range T N i)..End (spec_range T N i)}) =
      (\<Union>i<Suc k. {Begin (spec_range T N i)..End (spec_range T N i)}) \<union>
      {Begin (spec_range T N (Suc k))..End (spec_range T N (Suc k))}"
    by (simp add: lessThan_Suc Un_commute)
  also have "\<dots> = {0..int (Suc (Suc k)) * ?B}"
    unfolding IHu r using u by simp
  finally have U: "(\<Union>i<Suc (Suc k). {Begin (spec_range T N i)..End (spec_range T N i)}) =
      {0..int (Suc (Suc k)) * ?B}" .
  have "(\<Sum>i<Suc (Suc k). End (spec_range T N i) - Begin (spec_range T N i) + 1) =
      (\<Sum>i<Suc k. End (spec_range T N i) - Begin (spec_range T N i) + 1) +
      (End (spec_range T N (Suc k)) - Begin (spec_range T N (Suc k)) + 1)"
    by simp
  also have "\<dots> = int (Suc (Suc k)) * ?B + 1"
    unfolding IHs r by (simp add: algebra_simps)
  finally show ?case using U by simp
qed

lemma spec_range_cover:
  assumes "0 < T" "1 \<le> N"
  shows "(\<Union>i<nat N. {Begin (spec_range T N i)..End (spec_range T N i)}) = {0..T - 1} \<and>
         (\<Sum>i<nat N. End (spec_range T N i) - Begin (spec_range T N i) + 1) = T"
proof (cases "N = 1")
  case True
  then show ?thesis by (simp add: spec_range_def lessThan_Suc)
next
  case False
  let ?B = "T div N"
  from False assms have "2 \<le> nat N" by linarith
  then obtain k where "nat N = 2 + k" using le_Suc_ex by blast
  then have k: "nat N = Suc (Suc k)" by simp
  then have last: "int (Suc k) = N - 1" by linarith
  then have pre: "int (Suc k) \<le> N - 1" by simp
  have B: "0 \<le> ?B" and N1B: "(N - 1) * ?B \<le> T - 1"
    using block_facts [OF assms] by simp_all
  have nn: "0 \<le> (N - 1) * ?B" using B assms by simp
  have r: "spec_range T N (Suc k) = \<lparr>Begin = (N - 1) * ?B + 1, End = T - 1\<rparr>"
    using spec_range_last [OF last, of T] by simp
  from spec_range_prefix [OF assms pre] have
    Pu: "(\<Union>i<Suc k. {Begin (spec_range T N i)..End (spec_range T N i)}) = {0..(N - 1) * ?B}"
    and Ps: "(\<Sum>i<Suc k. End (spec_range T N i) - Begin (spec_range T N i) + 1) = (N - 1) * ?B + 1"
    unfolding last by simp_all
  have u: "{0..(N - 1) * ?B} \<union> {(N - 1) * ?B + 1..T - 1} = {0..T - 1}"
    using nn N1B by (intro ivl_join) auto
  have "(\<Union>i<Suc (Suc k). {Begin (spec_range T N i)..End (spec_range T N i)}) =
      (\<Union>i<Suc k. {Begin (spec_range T N i)..End (spec_range T N i)}) \<union>
      {Begin (spec_range T N (Suc k))..End (spec_range T N (Suc k))}"
    by (simp add: lessThan_Suc Un_commute)
  also have "\<dots> = {0..T - 1}"
    unfolding Pu r using u by simp
  finally have U: "(\<Union>i<Suc (Suc k). {Begin (spec_range T N i)..End (spec_range T N i)}) = {0..T - 1}" .
  have "(\<Sum>i<Suc (Suc k). End (spec_range T N i) - Begin (spec_range T N i) + 1) =
      (\<Sum>i<Suc k. End (spec_range T N i) - Begin (spec_range T N i) + 1) +
      (End (spec_range T N (Suc k)) - Begin (spec_range T N (Suc k)) + 1)"
    by simp
  also have "\<dots> = T"
    unfolding Ps r by simp
  finally show ?thesis using U unfolding k by simp
qed

lemma spec_range_disjoint:
  assumes "0 < T" "1 \<le> N" "i < j" "j < nat N"
  shows "{Begin (spec_range T N i)..End (spec_range T N i)} \<inter>
         {Begin (spec_range T N j)..End (spec_range T N j)} = {}"
proof -
  let ?B = "T div N"
  have B: "0 \<le> ?B" using block_facts(1) [OF assms(1,2)] .
  have inner: "int i < N - 1" using assms by linarith
  have e: "End (spec_range T N i) = (int i + 1) * ?B"
    using spec_range_inner [OF inner, of T] by simp
  have b: "Begin (spec_range T N j) = int j * ?B + 1"
    using assms by (simp add: spec_range_def)
  have "(int i + 1) * ?B \<le> int j * ?B"
    using mult_block_le [OF B, of "int i + 1" "int j"] assms by simp
  then show ?thesis unfolding e b by auto
qed


lemma chooseParallel_Inr:
  "s \<noteq> 0 \<Longrightarrow> \<exists>par. chooseParallel s a rs m t = Inr par"
  by (simp add: chooseParallel_def Let_def)

lemma Union_map_upt:
  "(\<Union>r \<in> set (map f [0..<n]). g r) = (\<Union>i<n. g (f i))"
  by (auto simp add: atLeast0LessThan)

lemma sum_list_map_upt:
  "(\<Sum>r\<leftarrow>map f [0..<n]. (g r :: int)) = (\<Sum>i<n. g (f i))"
  by (simp add: comp_def interv_sum_list_conv_sum_set_nat atLeast0LessThan)

text \<open>
  C2, as amended. On a fresh run against a server that reports a length \<open>T > 0\<close>, with
  the chosen parallelism \<open>N \<ge> 1\<close> and \<open>block = T div N\<close>, \<open>Execute\<close> builds \<open>N\<close> workers;
  worker \<open>i\<close> gets the range that begins at 0 for \<open>i = 0\<close> and at \<open>i * block + 1\<close>
  otherwise, and ends at \<open>T - 1\<close> for \<open>i = N - 1\<close> and at \<open>(i + 1) * block\<close> otherwise (so the
  single worker of \<open>N = 1\<close> gets \<open>[0, T - 1]\<close>). The ranges are pairwise disjoint, their
  union is \<open>[0, T - 1]\<close> and their lengths add up to \<open>T\<close>.
\<close>

theorem fresh_partition:
  assumes "config der = Some cfg" "client (lazyInit env der) = Some cl"
    and "cl ''HEAD'' (durl der) = Inr resp" "checkStatus resp = None"
    and init: "initInstanceState env = None"
    and ls: "loadedStatus env = None" and lr: "loadedRanges env = []"
    and S: "MinParallelSize env \<noteq> 0"
    and "ContentLength resp = T" and T0: "0 < T" and "T < 2 ^ 63"
    and N: "map_option parallel (config (final (Execute env der))) = Some N"
    and N1: "1 \<le> N" and "N < 2 ^ 63"
    and rs_def: "rs = map wrange (workersOf (final (Execute env der)))"
  shows "length rs = nat N \<and>
         (\<forall>i<nat N. rs ! i =
            \<lparr>Begin = (if i = 0 then 0 else int i * (T div N) + 1),
             End = (if int i = N - 1 then T - 1 else (int i + 1) * (T div N))\<rparr>) \<and>
         (\<forall>i j. i < j \<and> j < nat N \<longrightarrow>
            {Begin (rs ! i)..End (rs ! i)} \<inter> {Begin (rs ! j)..End (rs ! j)} = {}) \<and>
         (\<Union>r \<in> set rs. {Begin r..End r}) = {0..T - 1} \<and>
         (\<Sum>r\<leftarrow>rs. End r - Begin r + 1) = T"
proof -
  obtain mon where mon: "monitor (lazyInit env der) = Some mon"
    by (simp add: lazyInit_monitor)
  let ?d = "lazyInit env der"
  let ?v = "loopVars env ?d cl cfg mon resp N (T div N)"
  have E: "Execute env der = afterProbe env ?d cl cfg mon resp"
    using assms mon by (intro Execute_afterProbe)
  have T: "totalSize (monitorStatus env mon resp) = T"
    using assms ls by (simp add: monitorStatus_def)
  obtain par where par: "chooseParallel (MinParallelSize env) (acceptRangesOf resp)
      (loadedRanges env) (MaxParallel cfg) (totalSize (monitorStatus env mon resp)) = Inr par"
    using chooseParallel_Inr [OF S] by blast
  have "par = N"
    using afterProbe_parallel [OF init par, of ?d cl] N E by auto
  note par = par [unfolded this]
  have b: "blockSizeOf (totalSize (monitorStatus env mon resp)) N = Inr (T div N)"
    using assms T by (simp add: blockSizeOf_def quo64_nonneg)
  have ws: "buildWorkers ?v = Inr (map (\<lambda>i. newWorker ?v (int i) (spec_range T N i)) [0..<nat N])"
    using assms lr T by (intro buildWorkers_fresh) (simp_all add: loopVars_def)
  have rs: "rs = map (spec_range T N) [0..<nat N]"
    unfolding rs_def E afterProbe_run [OF init par b ws]
    by (simp add: workersOf_def comp_def)
  have nth: "rs ! i = spec_range T N i" if "i < nat N" for i
    using that rs by simp
  have "length rs = nat N" using rs by simp
  moreover have "\<forall>i<nat N. rs ! i =
            \<lparr>Begin = (if i = 0 then 0 else int i * (T div N) + 1),
             End = (if int i = N - 1 then T - 1 else (int i + 1) * (T div N))\<rparr>"
    using nth by (simp add: spec_range_def)
  moreover have "\<forall>i j. i < j \<and> j < nat N \<longrightarrow>
            {Begin (rs ! i)..End (rs ! i)} \<inter> {Begin (rs ! j)..End (rs ! j)} = {}"
  proof (intro allI impI)
    fix i j
    assume "i < j \<and> j < nat N"
    then have ij: "i < j" "j < nat N" "i < nat N" by auto
    show "{Begin (rs ! i)..End (rs ! i)} \<inter> {Begin (rs ! j)..End (rs ! j)} = {}"
      unfolding nth [OF ij(2)] nth [OF ij(3)]
      by (rule spec_range_disjoint [OF T0 N1 ij(1,2)])
  qed
  moreover have "(\<Union>r \<in> set rs. {Begin r..End r}) = {0..T - 1}"
    unfolding rs Union_map_upt using spec_range_cover [OF T0 N1] by simp
  moreover have "(\<Sum>r\<leftarrow>rs. End r - Begin r + 1) = T"
    unfolding rs sum_list_map_upt using spec_range_cover [OF T0 N1] by simp
  ultimately show ?thesis by simp
qed

theorem fresh_partition_witness:
  "map wrange (workersOf (final (Execute (sampleEnv None False)
      (sampleDownloader (Some (sampleClient 200 ''200 OK'' 1048576 ''bytes'')) 4 1024)))) =
     [\<lparr>Begin = 0, End = 262144\<rparr>, \<lparr>Begin = 262145, End = 524288\<rparr>,
      \<lparr>Begin = 524289, End = 786432\<rparr>, \<lparr>Begin = 786433, End = 1048575\<rparr>] \<and>
   (\<Union>r \<in> set (map wrange (workersOf (final (Execute (sampleEnv None False)
      (sampleDownloader (Some (sampleClient 200 ''200 OK'' 1048576 ''bytes'')) 4 1024))))).
      {Begin r..End r}) = {0..1048576 - 1} \<and>
   (\<Sum>r\<leftarrow>map wrange (workersOf (final (Execute (sampleEnv None False)
      (sampleDownloader (Some (sampleClient 200 ''200 OK'' 1048576 ''bytes'')) 4 1024)))).
      End r - Begin r + 1) = 1048576"
proof -
  let ?e = "sampleEnv None False"
  let ?cl = "sampleClient 200 ''200 OK'' 1048576 ''bytes''"
  let ?d = "sampleDownloader (Some ?cl) 4 1024"
  have 1: "config ?d = Some (sampleConfig 4 1024)" by (simp add: sample_defs)
  have 2: "client (lazyInit ?e ?d) = Some ?cl" by (simp add: sample_defs lazyInit_def)
  have 3: "?cl ''HEAD'' (durl ?d) = Inr (sampleResponse 200 ''200 OK'' 1048576 ''bytes'' (durl ?d))"
    by (simp add: sample_defs)
  have 4: "checkStatus (sampleResponse 200 ''200 OK'' 1048576 ''bytes'' (durl ?d)) = None"
    by (simp add: sample_defs checkStatus_def quo64_def wrap64_def)
  have 5: "initInstanceState ?e = None" "loadedStatus ?e = None" "loadedRanges ?e = []"
    "MinParallelSize ?e \<noteq> 0"
    by (simp_all add: sample_defs loadedStatus_def loadedRanges_def)
  have 6: "ContentLength (sampleResponse 200 ''200 OK'' 1048576 ''bytes'' (durl ?d)) = 1048576"
    by (simp add: sample_defs)
  have 7: "map_option parallel (config (final (Execute ?e ?d))) = Some 4"
    by (simp add: sample_defs run_defs numeral_eq_Suc)
  have 8: "map wrange (workersOf (final (Execute ?e ?d))) =
     [\<lparr>Begin = 0, End = 262144\<rparr>, \<lparr>Begin = 262145, End = 524288\<rparr>,
      \<lparr>Begin = 524289, End = 786432\<rparr>, \<lparr>Begin = 786433, End = 1048575\<rparr>]"
    by (simp add: sample_defs run_defs numeral_eq_Suc)
  from fresh_partition [OF 1 2 3 4 5 6 _ _ 7 _ _ refl] 8
  show ?thesis by simp
qed

text \<open>
  C2 as stated fails for \<open>N = 1\<close>: with \<open>T = 100\<close> the single worker gets \<open>[0, 99]\<close>,
  which is neither \<open>[0, block]\<close> (worker 0 of the claim) nor
  \<open>[(N - 1) * block + 1, T - 1]\<close> (worker \<open>N - 1\<close> of the claim).
\<close>

theorem fresh_partition_counterexample:
  "map_option parallel (config (final (Execute (sampleEnv None False)
      (sampleDownloader (Some (sampleClient 200 ''200 OK'' 100 ''bytes'')) 8 1024)))) = Some 1 \<and>
   map wrange (workersOf (final (Execute (sampleEnv None False)
      (sampleDownloader (Some (sampleClient 200 ''200 OK'' 100 ''bytes'')) 8 1024)))) =
     [\<lparr>Begin = 0, End = 99\<rparr>] \<and>
   \<lparr>Begin = 0, End = 99\<rparr> \<noteq> \<lparr>Begin = 0, End = 100 div 1\<rparr> \<and>
   \<lparr>Begin = 0, End = 99\<rparr> \<noteq> \<lparr>Begin = (1 - 1) * (100 div 1) + 1, End = 100 - 1\<rparr>"
  by (simp add: sample_defs run_defs)

section \<open>The checkpoint path and the skipped tasks\<close>

text \<open>
  C9, as amended. In a download that is not a test, the checkpoint path written into the
  config is the destination path followed by \<open>.BaiduPCS-Go-downloading\<close>, and the driver
  skips the task exactly when \<open>os.Stat\<close> succeeds on the destination and fails on the
  checkpoint path. In a test download the config is left as it was and no task is skipped.
\<close>

theorem checkpoint_path_and_skip:
  "(\<not> IsTest cfg \<longrightarrow>
      InstanceStatePath (getDownloadFunc_cfg p cfg) = p @ ''.BaiduPCS-Go-downloading'' \<and>
      (RunDownload_skip (IsTest cfg) fs p \<longleftrightarrow>
         p \<in> fs \<and> p @ ''.BaiduPCS-Go-downloading'' \<notin> fs)) \<and>
   (IsTest cfg \<longrightarrow>
      getDownloadFunc_cfg p cfg = cfg \<and> \<not> RunDownload_skip (IsTest cfg) fs p)"
  by (simp add: getDownloadFunc_cfg_def RunDownload_skip_def fileExist_def DownloadSuffix_def)

theorem checkpoint_path_and_skip_witness:
  "InstanceStatePath (getDownloadFunc_cfg ''/d/a.bin'' (sampleConfig 8 1024)) =
     ''/d/a.bin.BaiduPCS-Go-downloading'' \<and>
   RunDownload_skip False {''/d/a.bin''} ''/d/a.bin'' \<and>
   \<not> RunDownload_skip False {''/d/a.bin'', ''/d/a.bin.BaiduPCS-Go-downloading''} ''/d/a.bin'' \<and>
   \<not> RunDownload_skip True {''/d/a.bin''} ''/d/a.bin''"
  using checkpoint_path_and_skip [of "sampleConfig 8 1024" "''/d/a.bin''" "{''/d/a.bin''}"]
    checkpoint_path_and_skip [of "sampleConfig 8 1024" "''/d/a.bin''"
      "{''/d/a.bin'', ''/d/a.bin.BaiduPCS-Go-downloading''}"]
    checkpoint_path_and_skip [of "(sampleConfig 8 1024)\<lparr>IsTest := True\<rparr>" "''/d/a.bin''"
      "{''/d/a.bin''}"]
  by (simp add: sampleConfig_def)

text \<open>
  C9 as stated fails in a test download: the destination is there, no checkpoint file is,
  and yet the task is not skipped; nor is the checkpoint path set.
\<close>

theorem checkpoint_path_and_skip_counterexample:
  "''/d/a.bin'' \<in> {''/d/a.bin''} \<and>
   ''/d/a.bin'' @ ''.BaiduPCS-Go-downloading'' \<notin> {''/d/a.bin''} \<and>
   \<not> RunDownload_skip True {''/d/a.bin''} ''/d/a.bin'' \<and>
   InstanceStatePath (getDownloadFunc_cfg ''/d/a.bin''
      \<lparr>MaxParallel = 8, CacheSize = 1024, IsTest = True, InstanceStatePath = [],
       parallel = 0, cacheSize = 0\<rparr>) \<noteq> ''/d/a.bin'' @ ''.BaiduPCS-Go-downloading''"
  by (simp add: getDownloadFunc_cfg_def RunDownload_skip_def)

end
